theory Spec2Isabelle
  imports Main "HOL-Library.AList" "HOL-Library.Sublist"
begin

section \<open>Values handled by \<open>cert.py\<close>\<close>

text \<open>
  The program talks to Marathon in JSON, keeps two kinds of files under \<open>.lego/\<close>, reads
  its configuration from \<open>os.environ\<close> and starts \<open>./lego\<close> as a subprocess. Decoded JSON
  documents are the values of \<open>response.json()\<close>: \<open>JNull\<close> is Python's \<open>None\<close>, an object is
  the \<open>dict\<close> in insertion order (each key listed once), numbers are integers.
\<close>

datatype json =
    JNull
  | JBool bool
  | JNum int
  | JStr string
  | JArr "json list"
  | JObj "(string \<times> json) list"

text \<open>
  Every \<open>raise Exception(msg)\<close> of the source is \<open>Exception msg\<close>; the other constructors
  are the built-in exceptions that the operations used by the source raise.
\<close>

datatype error =
    Exception string
  | KeyError string
  | TypeError
  | AttributeError
  | IndexError
  | ValueError
  | FileNotFoundError string
  | ConnectionError

type_synonym 'a result = "error + 'a"

subsection \<open>Python operations on decoded JSON\<close>

text \<open>\<open>d[k]\<close> with a string key: only a \<open>dict\<close> accepts it, a missing key is a \<open>KeyError\<close>.\<close>

fun subscript :: "json \<Rightarrow> string \<Rightarrow> json result" where
  "subscript (JObj kvs) k = (case map_of kvs k of None \<Rightarrow> Inl (KeyError k) | Some v \<Rightarrow> Inr v)"
| "subscript _ k = Inl TypeError"

text \<open>\<open>d.get(k, default)\<close>: only a \<open>dict\<close> has the method.\<close>

fun dict_get :: "json \<Rightarrow> string \<Rightarrow> json \<Rightarrow> json result" where
  "dict_get (JObj kvs) k dflt = (case map_of kvs k of None \<Rightarrow> Inr dflt | Some v \<Rightarrow> Inr v)"
| "dict_get _ k dflt = Inl AttributeError"

text \<open>\<open>d[k] = v\<close>: an existing key keeps its place, a new key goes to the end.\<close>

fun setitem :: "json \<Rightarrow> string \<Rightarrow> json \<Rightarrow> json result" where
  "setitem (JObj kvs) k v = Inr (JObj (AList.update k v kvs))"
| "setitem _ k v = Inl TypeError"

text \<open>
  \<open>k in d\<close> for a string \<open>k\<close>: key membership in a \<open>dict\<close>, element membership in a list,
  substring test on a string, \<open>TypeError\<close> on \<open>None\<close>, numbers and booleans.
\<close>

fun contains :: "json \<Rightarrow> string \<Rightarrow> bool result" where
  "contains (JObj kvs) k = Inr (k \<in> set (map fst kvs))"
| "contains (JArr xs) k = Inr (JStr k \<in> set xs)"
| "contains (JStr s) k = Inr (sublist k s)"
| "contains _ k = Inl TypeError"

text \<open>
  \<open>for x in d\<close>: the elements of a list, the keys of a \<open>dict\<close>, the characters of a string;
  anything else is not iterable.
\<close>

fun iterate :: "json \<Rightarrow> json list result" where
  "iterate (JArr xs) = Inr xs"
| "iterate (JObj kvs) = Inr (map (\<lambda>kv. JStr (fst kv)) kvs)"
| "iterate (JStr s) = Inr (map (\<lambda>c. JStr [c]) s)"
| "iterate _ = Inl TypeError"

text \<open>
  \<open>a == b\<close> on decoded values: \<open>True\<close> and \<open>False\<close> are the integers 1 and 0, a string
  equals only the same string, \<open>None\<close> only \<open>None\<close>; containers are compared as decoded.
\<close>

fun as_number :: "json \<Rightarrow> int option" where
  "as_number (JBool b) = Some (if b then 1 else 0)"
| "as_number (JNum n) = Some n"
| "as_number _ = None"

definition py_eq :: "json \<Rightarrow> json \<Rightarrow> bool" where
  "py_eq a b =
     (case (as_number a, as_number b) of
        (Some m, Some n) \<Rightarrow> m = n
      | (None, None) \<Rightarrow> a = b
      | _ \<Rightarrow> False)"

text \<open>\<open>"%s" % x\<close> and \<open>os.environ.get(k)\<close>: an unset variable is \<open>None\<close> and prints as \<open>None\<close>.\<close>

definition percent_s :: "string option \<Rightarrow> string" where
  "percent_s x = (case x of None \<Rightarrow> ''None'' | Some s \<Rightarrow> s)"

definition json_of_opt :: "string option \<Rightarrow> json" where
  "json_of_opt x = (case x of None \<Rightarrow> JNull | Some s \<Rightarrow> JStr s)"

subsection \<open>Strings\<close>

text \<open>\<open>s.split(",")\<close>: one piece more than there are commas, so never the empty list.\<close>

fun split_comma :: "string \<Rightarrow> string list" where
  "split_comma [] = [[]]"
| "split_comma (c # cs) =
     (if c = CHR '','' then [] # split_comma cs
      else (case split_comma cs of [] \<Rightarrow> [[c]] | p # ps \<Rightarrow> (c # p) # ps))"

text \<open>\<open>xs[0]\<close>.\<close>

definition item0 :: "'a list \<Rightarrow> 'a result" where
  "item0 xs = (case xs of [] \<Rightarrow> Inl IndexError | x # _ \<Rightarrow> Inr x)"

text \<open>\<open>s.startswith("*")\<close> and \<open>s.replace("*", "_")\<close>.\<close>

definition startswith_star :: "string \<Rightarrow> bool" where
  "startswith_star s = (case s of [] \<Rightarrow> False | c # _ \<Rightarrow> c = CHR ''*'')"

definition replace_star :: "string \<Rightarrow> string" where
  "replace_star s = map (\<lambda>c. if c = CHR ''*'' then CHR ''_'' else c) s"

subsection \<open>The world outside the process\<close>

text \<open>
  Files are opened in text mode with the default \<open>newline=None\<close>: what is written is stored
  as it is (the platform's line separator is the line feed), and reading translates every
  carriage return, with the line feed that may follow it, into one line feed.
\<close>

definition CR :: char where "CR = CHR 0x0D"
definition LF :: char where "LF = CHR 0x0A"

fun universal_newlines :: "string \<Rightarrow> string" where
  "universal_newlines [] = []"
| "universal_newlines [c] = (if c = CR then [LF] else [c])"
| "universal_newlines (c # d # cs) =
     (if c = CR \<and> d = LF then LF # universal_newlines cs
      else if c = CR then LF # universal_newlines (d # cs)
      else c # universal_newlines (d # cs))"

text \<open>The file system names a file whatever the number of slashes between two components.\<close>

fun normpath :: "string \<Rightarrow> string" where
  "normpath [] = []"
| "normpath [c] = [c]"
| "normpath (c # d # cs) =
     (if c = CHR ''/'' \<and> d = CHR ''/'' then normpath (d # cs) else c # normpath (d # cs))"

datatype request =
    Get string
  | Patch string json

text \<open>
  A response of \<open>requests\<close>: the call raises when the server cannot be reached; otherwise
  it has the flag \<open>ok\<close> and a body, \<open>None\<close> when the body is not JSON.
\<close>

datatype response =
    Unreachable
  | Response bool "json option"

datatype event =
    Request request
  | Slept int
  | Ran "string list"
  | Wrote string string

text \<open>
  The state the program runs in. \<open>trace\<close> lists what the process has done so far, oldest
  first. Marathon and \<open>lego\<close> are outside the program: \<open>marathon\<close> gives the response to
  a request after the events so far, \<open>lego\<close> the exit status of the subprocess and the files
  it leaves. Messages printed to standard output are not part of the state.
\<close>

record world =
  environ :: "string \<rightharpoonup> string"
  files :: "string \<rightharpoonup> string"
  trace :: "event list"
  marathon :: "event list \<Rightarrow> request \<Rightarrow> response"
  lego :: "event list \<Rightarrow> string list \<Rightarrow> (string \<rightharpoonup> string) \<Rightarrow> int \<times> (string \<rightharpoonup> string)"

definition path_exists :: "world \<Rightarrow> string \<Rightarrow> bool" where
  "path_exists w p = (files w (normpath p) \<noteq> None)"

definition read_text :: "world \<Rightarrow> string \<Rightarrow> string result" where
  "read_text w p =
     (case files w (normpath p) of
        None \<Rightarrow> Inl (FileNotFoundError p)
      | Some s \<Rightarrow> Inr (universal_newlines s))"

definition write_text :: "string \<Rightarrow> string \<Rightarrow> world \<Rightarrow> world" where
  "write_text p s w =
     w\<lparr>files := (files w)(normpath p \<mapsto> s), trace := trace w @ [Wrote p s]\<rparr>"

definition sleep :: "int \<Rightarrow> world \<Rightarrow> world" where
  "sleep n w = w\<lparr>trace := trace w @ [Slept n]\<rparr>"

definition send :: "request \<Rightarrow> world \<Rightarrow> response \<times> world" where
  "send r w = (marathon w (trace w) r, w\<lparr>trace := trace w @ [Request r]\<rparr>)"

text \<open>\<open>response.json()\<close>.\<close>

definition response_json :: "json option \<Rightarrow> json result" where
  "response_json b = (case b of None \<Rightarrow> Inl ValueError | Some j \<Rightarrow> Inr j)"

text \<open>
  \<open>subprocess.run(args, ...)\<close>: an argument that is \<open>None\<close> is a \<open>TypeError\<close> before anything
  is started.
\<close>

definition subprocess_run :: "string option list \<Rightarrow> world \<Rightarrow> int result \<times> world" where
  "subprocess_run args w =
     (if None \<in> set args then (Inl TypeError, w)
      else (let argv = map the args;
                r = lego w (trace w) argv (files w)
            in (Inr (fst r), w\<lparr>files := snd r, trace := trace w @ [Ran argv]\<rparr>)))"

section \<open>The program\<close>

subsection \<open>Constants\<close>

definition ENV_MARATHON_URL :: string where "ENV_MARATHON_URL = ''MARATHON_URL''"
definition DEFAULT_MARATHON_URL :: string where
  "DEFAULT_MARATHON_URL = ''https://marathon.mesos:8443/''"
definition ENV_MARATHON_APP_ID :: string where "ENV_MARATHON_APP_ID = ''MARATHON_APP_ID''"
definition HAPROXY_SSL_CERT :: string where "HAPROXY_SSL_CERT = ''HAPROXY_SSL_CERT''"
definition ENV_MARATHON_LB_ID :: string where "ENV_MARATHON_LB_ID = ''MARATHON_LB_ID''"
definition ENV_LETSENCRYPT_EMAIL :: string where "ENV_LETSENCRYPT_EMAIL = ''LETSENCRYPT_EMAIL''"
definition ENV_LETSENCRYPT_URL :: string where "ENV_LETSENCRYPT_URL = ''LETSENCRYPT_URL''"
definition ENV_VERIFICATION_METHOD :: string where
  "ENV_VERIFICATION_METHOD = ''LETSENCRYPT_VERIFICATION_METHOD''"
definition ENV_DOMAINS :: string where "ENV_DOMAINS = ''DOMAINS''"
definition ENV_DNSPROVIDER :: string where "ENV_DNSPROVIDER = ''DNSPROVIDER''"
definition DEFAULT_LETSENCRYPT_URL :: string where
  "DEFAULT_LETSENCRYPT_URL = ''https://acme-staging.api.letsencrypt.org/directory''"

definition CERTIFICATES_DIR :: string where "CERTIFICATES_DIR = ''.lego/certificates/''"
definition DOMAINS_FILE :: string where "DOMAINS_FILE = ''.lego/current_domains''"

text \<open>\<open>os.environ.get(k, default)\<close>.\<close>

definition environ_get :: "world \<Rightarrow> string \<Rightarrow> string \<Rightarrow> string" where
  "environ_get w k dflt = (case environ w k of None \<Rightarrow> dflt | Some v \<Rightarrow> v)"

text \<open>
  The module computes \<open>DEFAULT_LEGO_ARGS\<close> from the environment when it is loaded; the
  program never changes the environment, so the list is a function of the world. The
  e-mail address is \<open>None\<close> when its variable is unset.
\<close>

definition DEFAULT_LEGO_ARGS :: "world \<Rightarrow> string option list" where
  "DEFAULT_LEGO_ARGS w =
     [Some ''./lego'',
      Some ''--server'', Some (environ_get w ENV_LETSENCRYPT_URL DEFAULT_LETSENCRYPT_URL),
      Some ''--email'', environ w ENV_LETSENCRYPT_EMAIL,
      Some ''--accept-tos'',
      Some ''--pem'']"

definition LEGO_ARGS_HTTP :: "string list" where
  "LEGO_ARGS_HTTP = [''--http'', '':8080'', ''--exclude'', ''tls-sni-01'']"

definition LEGO_ARGS_DNS :: "string list" where
  "LEGO_ARGS_DNS = [''--dns-resolvers'', ''8.8.8.8:53'', ''--exclude'', ''http-01'']"

subsection \<open>Marathon\<close>

definition get_marathon_url :: "world \<Rightarrow> string" where
  "get_marathon_url w = environ_get w ENV_MARATHON_URL DEFAULT_MARATHON_URL"

definition get_marathon_app :: "string option \<Rightarrow> world \<Rightarrow> json result \<times> world" where
  "get_marathon_app app_id w =
     (case send (Get (get_marathon_url w @ ''/v2/apps/'' @ percent_s app_id)) w of
        (Unreachable, w') \<Rightarrow> (Inl ConnectionError, w')
      | (Response ok body, w') \<Rightarrow>
          if \<not> ok then (Inl (Exception ''Could not get app details from marathon''), w')
          else (response_json body, w'))"

text \<open>The \<open>for deployment in deployments\<close> loop with its \<open>break\<close>.\<close>

fun deployment_listed :: "json \<Rightarrow> json list \<Rightarrow> bool result" where
  "deployment_listed deployment_id [] = Inr False"
| "deployment_listed deployment_id (deployment # deployments) =
     (case subscript deployment ''id'' of
        Inl e \<Rightarrow> Inl e
      | Inr i \<Rightarrow>
          if py_eq i deployment_id then Inr True
          else deployment_listed deployment_id deployments)"

text \<open>
  One turn of the \<open>while\<close> loop of \<open>update_marathon_app\<close>, up to the end of the \<open>for\<close>
  loop: sleep, fetch the running deployments, look for the id. The value is the new
  \<open>deployment_exists\<close>.
\<close>

definition poll_deployments :: "json \<Rightarrow> world \<Rightarrow> bool result \<times> world" where
  "poll_deployments deployment_id w =
     (case send (Get (get_marathon_url w @ ''/v2/deployments'')) (sleep 5 w) of
        (Unreachable, w') \<Rightarrow> (Inl ConnectionError, w')
      | (Response ok body, w') \<Rightarrow>
          (case response_json body of
             Inl e \<Rightarrow> (Inl e, w')
           | Inr deployments \<Rightarrow>
               (case iterate deployments of
                  Inl e \<Rightarrow> (Inl e, w')
                | Inr ds \<Rightarrow> (deployment_listed deployment_id ds, w'))))"

text \<open>
  The \<open>while deployment_exists\<close> loop; the argument is \<open>sum_wait_time\<close> at the start of
  the turn. The test of line 104 comes after the poll, whatever the poll found.
\<close>

function wait_for_deployment :: "json \<Rightarrow> int \<Rightarrow> world \<Rightarrow> unit result \<times> world" where
  "wait_for_deployment deployment_id sum_wait_time w =
     (case poll_deployments deployment_id w of
        (Inl e, w') \<Rightarrow> (Inl e, w')
      | (Inr deployment_exists, w') \<Rightarrow>
          if sum_wait_time + 5 > 60 * 5
          then (Inl (Exception ''Failed to update app due to timeout in deployment.''), w')
          else if deployment_exists then wait_for_deployment deployment_id (sum_wait_time + 5) w'
          else (Inr (), w'))"
  by pat_completeness auto
termination
  by (relation "measure (\<lambda>(d, s, w). nat (300 - s))") auto

declare wait_for_deployment.simps [simp del]

text \<open>
  The request of lines 72 to 77: \<open>data\<close> starts as \<open>dict(id=app_id)\<close> and takes every
  keyword argument in turn; the body is \<open>data\<close> (serialised by \<open>json.dumps\<close>).
\<close>

definition update_request :: "string option \<Rightarrow> (string \<times> json) list \<Rightarrow> world \<Rightarrow> request" where
  "update_request app_id kwargs w =
     (let data = foldl (\<lambda>d kv. AList.update (fst kv) (snd kv) d) [(''id'', json_of_opt app_id)] kwargs
      in Patch (get_marathon_url w @ ''/v2/apps/'' @ percent_s app_id) (JObj data))"

definition update_marathon_app ::
  "string option \<Rightarrow> (string \<times> json) list \<Rightarrow> world \<Rightarrow> unit result \<times> world" where
  "update_marathon_app app_id kwargs w =
     (case send (update_request app_id kwargs w) w of
        (Unreachable, w') \<Rightarrow> (Inl ConnectionError, w')
      | (Response ok body, w') \<Rightarrow>
          if \<not> ok
          then (Inl (Exception ''Could not update app. See response text for error message.''), w')
          else
            (case response_json body of
               Inl e \<Rightarrow> (Inl e, w')
             | Inr data \<Rightarrow>
                 (case contains data ''deploymentId'' of
                    Inl e \<Rightarrow> (Inl e, w')
                  | Inr has_id \<Rightarrow>
                      if \<not> has_id
                      then (Inl (Exception ''Could not update app. Marathon did not return deployment id.  See response data for error message.''), w')
                      else
                        (case subscript data ''deploymentId'' of
                           Inl e \<Rightarrow> (Inl e, w')
                         | Inr deployment_id \<Rightarrow> wait_for_deployment deployment_id 0 w'))))"

subsection \<open>Domains and files\<close>

definition get_domains :: "world \<Rightarrow> json result \<times> world" where
  "get_domains w =
     (case get_marathon_app (environ w ENV_MARATHON_APP_ID) w of
        (Inl e, w') \<Rightarrow> (Inl e, w')
      | (Inr data, w') \<Rightarrow>
          (let verification_method = environ_get w ENV_VERIFICATION_METHOD ''http''
           in if verification_method = ''http'' then
                (case subscript data ''app'' of
                   Inl e \<Rightarrow> (Inl e, w')
                 | Inr app \<Rightarrow>
                     (case subscript app ''labels'' of
                        Inl e \<Rightarrow> (Inl e, w')
                      | Inr labels \<Rightarrow> (subscript labels ''HAPROXY_0_VHOST'', w')))
              else if verification_method = ''dns'' then
                (Inr (json_of_opt (environ w ENV_DOMAINS)), w')
              else (Inl (Exception (''Unknown verification method: '' @ verification_method)), w')))"

definition get_cert_filepath :: "string \<Rightarrow> string" where
  "get_cert_filepath domain_name =
     CERTIFICATES_DIR @ ''/''
       @ (if startswith_star domain_name then replace_star domain_name else domain_name)
       @ ''.pem''"

definition read_domains_from_last_time :: "world \<Rightarrow> string result" where
  "read_domains_from_last_time w =
     (if path_exists w DOMAINS_FILE then read_text w DOMAINS_FILE else Inr [])"

definition write_domains_to_file :: "string \<Rightarrow> world \<Rightarrow> world" where
  "write_domains_to_file domains w = write_text DOMAINS_FILE domains w"

subsection \<open>The issuer\<close>

text \<open>
  The three parts of \<open>args\<close> in \<open>generate_letsencrypt_cert\<close>: the \<open>--domains\<close> pairs of
  lines 146 to 149, the challenge arguments of lines 151 to 155 (nothing for a method
  that is neither \<open>http\<close> nor \<open>dns\<close>), and the mode of lines 157 to 164.
\<close>

definition domain_args :: "string \<Rightarrow> string list" where
  "domain_args domains = concat (map (\<lambda>domain. [''--domains'', domain]) (split_comma domains))"

definition verification_args :: "world \<Rightarrow> string list" where
  "verification_args w =
     (let verification_method = environ_get w ENV_VERIFICATION_METHOD ''http''
      in if verification_method = ''http'' then LEGO_ARGS_HTTP
         else if verification_method = ''dns'' then
           [''--dns'', environ_get w ENV_DNSPROVIDER ''route53''] @ LEGO_ARGS_DNS
         else [])"

definition mode_args :: "world \<Rightarrow> bool \<Rightarrow> string \<Rightarrow> string list" where
  "mode_args w domains_changed first_domain =
     (if \<not> domains_changed \<and> path_exists w (CERTIFICATES_DIR @ ''/'' @ first_domain @ ''.crt'')
      then [''renew'', ''--days'', ''80'']
      else [''run''])"

definition generate_letsencrypt_cert :: "string \<Rightarrow> world \<Rightarrow> string result \<times> world" where
  "generate_letsencrypt_cert domains w =
     (case read_domains_from_last_time w of
        Inl e \<Rightarrow> (Inl e, w)
      | Inr last_time \<Rightarrow>
          (let domains_changed = (domains \<noteq> last_time)
           in case item0 (split_comma domains) of
                Inl e \<Rightarrow> (Inl e, w)
              | Inr first_domain \<Rightarrow>
                  (let args = domain_args domains @ verification_args w
                                @ mode_args w domains_changed first_domain
                   in case subprocess_run (DEFAULT_LEGO_ARGS w @ map Some args) w of
                        (Inl e, w') \<Rightarrow> (Inl e, w')
                      | (Inr returncode, w') \<Rightarrow>
                          if returncode \<noteq> 0
                          then (Inl (Exception ''Obtaining certificates failed. Check lego output for error messages.''), w')
                          else (Inr first_domain, write_domains_to_file domains w'))))"

subsection \<open>The publisher\<close>

definition upload_cert_to_marathon_lb :: "string \<Rightarrow> world \<Rightarrow> unit result \<times> world" where
  "upload_cert_to_marathon_lb cert_filename w =
     (case read_text w cert_filename of
        Inl e \<Rightarrow> (Inl e, w)
      | Inr cert_data \<Rightarrow>
          (let marathon_lb_id = environ w ENV_MARATHON_LB_ID
           in case get_marathon_app marathon_lb_id w of
                (Inl e, w') \<Rightarrow> (Inl e, w')
              | (Inr app_data, w') \<Rightarrow>
                  (case subscript app_data ''app'' of
                     Inl e \<Rightarrow> (Inl e, w')
                   | Inr app \<Rightarrow>
                       (case subscript app ''env'' of
                          Inl e \<Rightarrow> (Inl e, w')
                        | Inr env \<Rightarrow>
                            (case dict_get env HAPROXY_SSL_CERT (JStr []) of
                               Inl e \<Rightarrow> (Inl e, w')
                             | Inr current \<Rightarrow>
                                 if \<not> py_eq current (JStr cert_data) then
                                   (case setitem env HAPROXY_SSL_CERT (JStr cert_data) of
                                      Inl e \<Rightarrow> (Inl e, w')
                                    | Inr env' \<Rightarrow>
                                        (case dict_get app ''secrets'' (JObj []) of
                                           Inl e \<Rightarrow> (Inl e, w')
                                         | Inr secrets \<Rightarrow>
                                             update_marathon_app marathon_lb_id
                                               [(''env'', env'), (''secrets'', secrets)] w'))
                                 else (Inr (), w'))))))"

subsection \<open>One run, and the run with backoff\<close>

text \<open>
  Line 195 joins a string with \<open>domains\<close>, which is a \<open>TypeError\<close> unless \<open>domains\<close> is a
  string.
\<close>

definition run_client :: "world \<Rightarrow> unit result \<times> world" where
  "run_client w =
     (case get_domains w of
        (Inl e, w1) \<Rightarrow> (Inl e, w1)
      | (Inr (JStr domains), w1) \<Rightarrow>
          (case generate_letsencrypt_cert domains w1 of
             (Inl e, w2) \<Rightarrow> (Inl e, w2)
           | (Inr domain_name, w2) \<Rightarrow>
               upload_cert_to_marathon_lb (get_cert_filepath domain_name) w2)
      | (Inr _, w1) \<Rightarrow> (Inl TypeError, w1))"

text \<open>
  The \<open>while True\<close> loop of \<open>run_client_with_backoff\<close>, with the two local variables
  as arguments and the attempt \<open>client\<close> that it repeats. Nothing in the loop bounds the
  number of turns for every value of \<open>backoff_seconds\<close>, so a run that never returns is
  \<open>None\<close>. \<open>time.sleep\<close> refuses a negative length with a \<open>ValueError\<close>, raised inside the
  handler and so leaving the function.
\<close>

partial_function (option) backoff_loop ::
  "(world \<Rightarrow> unit result \<times> world) \<Rightarrow> int \<Rightarrow> int \<Rightarrow> world \<Rightarrow> (unit result \<times> world) option" where
  "backoff_loop client backoff_seconds sum_wait_time w =
     (case client w of
        (Inr u, w') \<Rightarrow> Some (Inr u, w')
      | (Inl ex, w') \<Rightarrow>
          if sum_wait_time \<ge> 60 * 60 then Some (Inl ex, w')
          else if backoff_seconds < 0 then Some (Inl ValueError, w')
          else backoff_loop client (backoff_seconds * 2) (sum_wait_time + backoff_seconds)
                 (sleep backoff_seconds w'))"

definition run_client_with_backoff :: "world \<Rightarrow> (unit result \<times> world) option" where
  "run_client_with_backoff w = backoff_loop run_client 30 0 w"

section \<open>Observations on a run\<close>

text \<open>What a trace tells: the requests sent to Marathon, and the seconds slept.\<close>

fun requests_of :: "event list \<Rightarrow> request list" where
  "requests_of [] = []"
| "requests_of (Request r # t) = r # requests_of t"
| "requests_of (_ # t) = requests_of t"

fun slept_total :: "event list \<Rightarrow> int" where
  "slept_total [] = 0"
| "slept_total (Slept n # t) = n + slept_total t"
| "slept_total (_ # t) = slept_total t"

text \<open>
  A run of attempts separated by sleeps of the given lengths: attempt, sleep, attempt, ...,
  ending with an attempt whose outcome is the outcome of the run.
\<close>

fun attempts :: "(world \<Rightarrow> unit result \<times> world) \<Rightarrow> int list \<Rightarrow> world \<Rightarrow> unit result \<times> world" where
  "attempts client [] w = client w"
| "attempts client (n # ns) w = attempts client ns (sleep n (snd (client w)))"

definition backoff_waits :: "int list" where
  "backoff_waits = [30, 60, 120, 240, 480, 960, 1920]"

section \<open>Example worlds\<close>

text \<open>
  A Marathon that keeps the environment of the load balancer: the definition it returns
  carries the \<open>env\<close> of the last update it received, every update is accepted with the
  deployment id \<open>d1\<close>, and no deployment is running when the list is fetched.
\<close>

fun patched_env :: "json \<Rightarrow> event list \<Rightarrow> json" where
  "patched_env env [] = env"
| "patched_env env (Request (Patch url (JObj data)) # t) =
     patched_env (case map_of data ''env'' of None \<Rightarrow> env | Some e \<Rightarrow> e) t"
| "patched_env env (_ # t) = patched_env env t"

definition example_app :: "string \<Rightarrow> json \<Rightarrow> json" where
  "example_app vhost env =
     JObj [(''app'', JObj [(''id'', JStr ''/marathon-lb''),
                          (''labels'', JObj [(''HAPROXY_0_VHOST'', JStr vhost)]),
                          (''env'', env),
                          (''secrets'', JObj [])])]"

definition deployments_url :: string where
  "deployments_url = ''https://marathon.mesos:8443//v2/deployments''"

definition keeping_marathon :: "event list \<Rightarrow> request \<Rightarrow> response" where
  "keeping_marathon t r =
     (case r of
        Get url \<Rightarrow>
          if url = deployments_url then Response True (Some (JArr []))
          else Response True
                 (Some (example_app ''a.example.com,b.example.com'' (patched_env (JObj []) t)))
      | Patch url body \<Rightarrow> Response True (Some (JObj [(''deploymentId'', JStr ''d1'')])))"

text \<open>A Marathon whose deployment \<open>d1\<close> ends between the 60th and the 61st poll.\<close>

definition slow_marathon :: "event list \<Rightarrow> request \<Rightarrow> response" where
  "slow_marathon t r =
     (case r of
        Get url \<Rightarrow>
          if url = deployments_url
          then Response True
                 (Some (JArr (if slept_total t \<le> 300 then [JObj [(''id'', JStr ''d1'')]] else [])))
          else Response True (Some (example_app ''a.example.com'' (JObj [])))
      | Patch url body \<Rightarrow> Response True (Some (JObj [(''deploymentId'', JStr ''d1'')])))"

text \<open>A Marathon that accepts an update and answers without a deployment id.\<close>

definition mute_marathon :: "event list \<Rightarrow> request \<Rightarrow> response" where
  "mute_marathon t r =
     (case r of
        Get url \<Rightarrow> Response True (Some (example_app ''a.example.com'' (JObj [])))
      | Patch url body \<Rightarrow> Response True (Some (JObj [(''version'', JStr ''2026-01-01'')])))"

text \<open>A Marathon that cannot be reached.\<close>

definition down_marathon :: "event list \<Rightarrow> request \<Rightarrow> response" where
  "down_marathon t r = Unreachable"

text \<open>
  A \<open>lego\<close> that succeeds and leaves the two files of \<open>a.example.com\<close>, one that
  succeeds and leaves the files as they are (nothing is due for renewal), and one that
  fails and leaves the files as they are.
\<close>

definition good_lego :: "event list \<Rightarrow> string list \<Rightarrow> (string \<rightharpoonup> string) \<Rightarrow> int \<times> (string \<rightharpoonup> string)" where
  "good_lego t argv fs =
     (0, fs(''.lego/certificates/a.example.com.crt'' \<mapsto> ''CERT'',
            ''.lego/certificates/a.example.com.pem'' \<mapsto> ''CERT KEY''))"

definition idle_lego :: "event list \<Rightarrow> string list \<Rightarrow> (string \<rightharpoonup> string) \<Rightarrow> int \<times> (string \<rightharpoonup> string)" where
  "idle_lego t argv fs = (0, fs)"

definition bad_lego :: "event list \<Rightarrow> string list \<Rightarrow> (string \<rightharpoonup> string) \<Rightarrow> int \<times> (string \<rightharpoonup> string)" where
  "bad_lego t argv fs = (1, fs)"

definition example_environ :: "string \<rightharpoonup> string" where
  "example_environ =
     [''LETSENCRYPT_EMAIL'' \<mapsto> ''admin@example.com'',
      ''MARATHON_APP_ID'' \<mapsto> ''/letsencrypt'',
      ''MARATHON_LB_ID'' \<mapsto> ''/marathon-lb'']"

text \<open>The first run in the default (http) mode: no state file, no certificate.\<close>

definition first_world :: world where
  "first_world =
     \<lparr>environ = example_environ, files = Map.empty, trace = [],
      marathon = keeping_marathon, lego = good_lego\<rparr>"

text \<open>The same with a \<open>lego\<close> that fails.\<close>

definition failing_world :: world where
  "failing_world = first_world\<lparr>lego := bad_lego\<rparr>"

text \<open>The dns mode with one domain, and with an empty list of domains.\<close>

definition dns_world :: world where
  "dns_world =
     first_world\<lparr>environ := example_environ(''LETSENCRYPT_VERIFICATION_METHOD'' \<mapsto> ''dns'',
                                               ''DOMAINS'' \<mapsto> ''x.example.com'')\<rparr>"

definition empty_domains_world :: world where
  "empty_domains_world =
     first_world\<lparr>environ := example_environ(''LETSENCRYPT_VERIFICATION_METHOD'' \<mapsto> ''dns'',
                                               ''DOMAINS'' \<mapsto> [])\<rparr>"

text \<open>
  The dns mode with a wildcard as the only domain, after an issuance: the state file
  holds the domain and the certificate files are on disk under the name that
  \<open>get_cert_filepath\<close> gives them.
\<close>

definition wildcard_world :: world where
  "wildcard_world =
     first_world\<lparr>environ := example_environ(''LETSENCRYPT_VERIFICATION_METHOD'' \<mapsto> ''dns'',
                                               ''DOMAINS'' \<mapsto> ''*.example.com''),
                  files := [''.lego/current_domains'' \<mapsto> ''*.example.com'',
                            ''.lego/certificates/_.example.com.crt'' \<mapsto> ''CERT'',
                            ''.lego/certificates/_.example.com.pem'' \<mapsto> ''CERT KEY''],
                  lego := idle_lego\<rparr>"

text \<open>The worlds of the three other Marathons.\<close>

definition slow_world :: world where
  "slow_world = first_world\<lparr>marathon := slow_marathon\<rparr>"

definition mute_world :: world where
  "mute_world = first_world\<lparr>marathon := mute_marathon\<rparr>"

definition down_world :: world where
  "down_world = first_world\<lparr>marathon := down_marathon\<rparr>"

text \<open>A world whose verification method is neither \<open>http\<close> nor \<open>dns\<close>.\<close>

definition unknown_method_world :: world where
  "unknown_method_world =
     first_world\<lparr>environ := example_environ(''LETSENCRYPT_VERIFICATION_METHOD'' \<mapsto> ''tls'')\<rparr>"

text \<open>
  The first world after the issuance for \<open>a.example.com,b.example.com\<close>, and after the
  upload of the certificate that follows it.
\<close>

definition issued_world :: world where
  "issued_world = snd (generate_letsencrypt_cert ''a.example.com,b.example.com'' first_world)"

definition published_world :: world where
  "published_world =
     snd (upload_cert_to_marathon_lb (get_cert_filepath ''a.example.com'') issued_world)"

definition example_env :: "(string \<times> json) list" where
  "example_env = [(''HAPROXY_SSL_CERT'', JStr ''CERT KEY'')]"

section \<open>Notions used in the statements\<close>

text \<open>The world with the verification method set to \<open>http\<close>, everything else the same.\<close>

definition as_http :: "world \<Rightarrow> world" where
  "as_http w = w\<lparr>environ := (environ w)(ENV_VERIFICATION_METHOD \<mapsto> ''http'')\<rparr>"

text \<open>
  Every attempt of a run fails: the first attempt fails, and so does each attempt made
  after the sleeps of the given lengths.
\<close>

fun all_fail :: "(world \<Rightarrow> unit result \<times> world) \<Rightarrow> int list \<Rightarrow> world \<Rightarrow> bool" where
  "all_fail client [] w = isl (fst (client w))"
| "all_fail client (n # ns) w =
     (isl (fst (client w)) \<and> all_fail client ns (sleep n (snd (client w))))"

text \<open>
  The waits that the loop of \<open>run_client_with_backoff\<close> makes from given values of
  \<open>backoff_seconds\<close> and \<open>sum_wait_time\<close> when every attempt fails.
\<close>

fun waits_from :: "int \<Rightarrow> int \<Rightarrow> int list \<Rightarrow> bool" where
  "waits_from b s [] = (s \<ge> 60 * 60)"
| "waits_from b s (n # ns) =
     (s < 60 * 60 \<and> 0 \<le> b \<and> n = b \<and> waits_from (b * 2) (s + b) ns)"

section \<open>Facts about the operations\<close>

lemmas const_defs =
  ENV_MARATHON_URL_def DEFAULT_MARATHON_URL_def ENV_MARATHON_APP_ID_def HAPROXY_SSL_CERT_def
  ENV_MARATHON_LB_ID_def ENV_LETSENCRYPT_EMAIL_def ENV_LETSENCRYPT_URL_def
  ENV_VERIFICATION_METHOD_def ENV_DOMAINS_def ENV_DNSPROVIDER_def DEFAULT_LETSENCRYPT_URL_def
  CERTIFICATES_DIR_def DOMAINS_FILE_def LEGO_ARGS_HTTP_def LEGO_ARGS_DNS_def

lemmas world_defs =
  first_world_def failing_world_def dns_world_def empty_domains_world_def wildcard_world_def
  slow_world_def mute_world_def down_world_def unknown_method_world_def example_environ_def

lemmas marathon_defs =
  keeping_marathon_def slow_marathon_def mute_marathon_def down_marathon_def example_app_def
  deployments_url_def good_lego_def idle_lego_def bad_lego_def

lemmas io_defs =
  environ_get_def get_marathon_url_def send_def sleep_def path_exists_def read_text_def
  write_text_def response_json_def subprocess_run_def percent_s_def json_of_opt_def CR_def LF_def

lemma normpath_DOMAINS_FILE: "normpath DOMAINS_FILE = DOMAINS_FILE"
  by (simp add: DOMAINS_FILE_def)

lemma universal_newlines_id: "CR \<notin> set s \<Longrightarrow> universal_newlines s = s"
  by (induction s rule: universal_newlines.induct) auto

lemma split_comma_hd: "split_comma s = takeWhile (\<lambda>c. c \<noteq> CHR '','') s # tl (split_comma s)"
  by (induction s) (auto split: list.splits)

lemma item0_split_comma: "item0 (split_comma s) = Inr (takeWhile (\<lambda>c. c \<noteq> CHR '','') s)"
  by (subst split_comma_hd) (simp add: item0_def)

text \<open>Reading the state file never fails: the file is read only when it exists.\<close>

lemma read_domains_from_last_time_eq:
  "read_domains_from_last_time w =
     Inr (case files w DOMAINS_FILE of None \<Rightarrow> [] | Some s \<Rightarrow> universal_newlines s)"
  by (simp add: read_domains_from_last_time_def path_exists_def read_text_def normpath_DOMAINS_FILE
           split: option.splits)

text \<open>Fetching an app definition is one request, whatever the answer.\<close>

lemma get_marathon_app_world:
  "snd (get_marathon_app app_id w) =
     w\<lparr>trace := trace w @ [Request (Get (get_marathon_url w @ ''/v2/apps/'' @ percent_s app_id))]\<rparr>"
  by (simp add: get_marathon_app_def send_def split: response.splits)

section \<open>The domain resolver reads the app definition in every mode\<close>

text \<open>
  C5 (amended). \<open>get_domains\<close> sends exactly one request, the read of the definition of the
  app \<open>MARATHON_APP_ID\<close>, and changes nothing else, whatever the verification method:
  line 110 fetches the definition before line 111 looks at the method. In the dns mode the
  answer is not used, but the request is made (and a failed request fails the resolution).
\<close>

theorem get_domains_reads_once:
  "snd (get_domains w) =
     w\<lparr>trace := trace w @
        [Request (Get (get_marathon_url w @ ''/v2/apps/'' @ percent_s (environ w ENV_MARATHON_APP_ID)))]\<rparr>"
proof -
  obtain r w' where g: "get_marathon_app (environ w ENV_MARATHON_APP_ID) w = (r, w')"
    by (cases "get_marathon_app (environ w ENV_MARATHON_APP_ID) w")
  from g get_marathon_app_world [of "environ w ENV_MARATHON_APP_ID" w]
  have w': "w' = w\<lparr>trace := trace w @
        [Request (Get (get_marathon_url w @ ''/v2/apps/'' @ percent_s (environ w ENV_MARATHON_APP_ID)))]\<rparr>"
    by simp
  have "snd (get_domains w) = w'"
    using g by (simp add: get_domains_def Let_def split: sum.splits)
  with w' show ?thesis by simp
qed

text \<open>
  The claim as written fails in the dns mode: resolving \<open>x.example.com\<close> from the
  variable \<open>DOMAINS\<close> sends a request to the app definition endpoint.
\<close>

theorem get_domains_dns_reads_counterexample:
  "environ dns_world ENV_VERIFICATION_METHOD = Some ''dns'' \<and>
   fst (get_domains dns_world) = Inr (JStr ''x.example.com'') \<and>
   requests_of (trace dns_world) = [] \<and>
   requests_of (trace (snd (get_domains dns_world))) =
     [Get ''https://marathon.mesos:8443//v2/apps//letsencrypt'']"
  by (simp add: get_domains_def get_marathon_app_def world_defs marathon_defs io_defs const_defs)

section \<open>The state file\<close>

text \<open>
  C6 (amended). Writing a domain list that contains no carriage return and reading it back
  gives the same string, and reading when the state file does not exist gives the empty
  string, not an error. (A carriage return comes back as a line feed, since the file is
  read in text mode.)
\<close>

theorem domains_round_trip:
  "(CR \<notin> set d \<longrightarrow> read_domains_from_last_time (write_domains_to_file d w) = Inr d) \<and>
   (\<not> path_exists w DOMAINS_FILE \<longrightarrow> read_domains_from_last_time w = Inr [])"
  by (simp add: read_domains_from_last_time_eq write_domains_to_file_def write_text_def
        normpath_DOMAINS_FILE universal_newlines_id path_exists_def)

theorem domains_round_trip_witness:
  "CR \<notin> set ''a.example.com,b.example.com'' \<and>
   read_domains_from_last_time (write_domains_to_file ''a.example.com,b.example.com'' first_world)
     = Inr ''a.example.com,b.example.com'' \<and>
   \<not> path_exists first_world DOMAINS_FILE \<and>
   read_domains_from_last_time first_world = Inr []"
  using domains_round_trip [of "''a.example.com,b.example.com''" first_world]
  by (simp add: CR_def path_exists_def first_world_def DOMAINS_FILE_def)

text \<open>
  The claim as written fails for a list that ends with a carriage return, as a variable
  taken from a file with CRLF line ends does: it is read back with a line feed.
\<close>

theorem domains_round_trip_counterexample:
  "read_domains_from_last_time (write_domains_to_file (''a.example.com'' @ [CR]) first_world)
     = Inr (''a.example.com'' @ [LF]) \<and>
   ''a.example.com'' @ [LF] \<noteq> ''a.example.com'' @ [CR]"
  by (simp add: read_domains_from_last_time_def write_domains_to_file_def io_defs world_defs
        const_defs CR_def LF_def)

section \<open>The primary domain\<close>

text \<open>
  C9 (amended). Whatever the domain list, empty or not, it has a first entry, the text
  before its first comma (which may be the empty string), so the issuer never fails for
  want of a primary domain. The resolver itself hands on the label or the variable as it
  finds it and does not make the list non-empty.
\<close>

theorem primary_domain_exists:
  "item0 (split_comma domains) = Inr (takeWhile (\<lambda>c. c \<noteq> CHR '','') domains) \<and>
   fst (generate_letsencrypt_cert domains w) \<noteq> Inl IndexError"
  by (simp add: item0_split_comma generate_letsencrypt_cert_def read_domains_from_last_time_eq
        Let_def subprocess_run_def split: prod.splits sum.splits)

text \<open>
  The claim as written fails in the dns mode when \<open>DOMAINS\<close> is set to the empty string:
  the resolver returns the empty list of domains.
\<close>

theorem get_domains_empty_counterexample:
  "environ empty_domains_world ENV_DOMAINS = Some [] \<and>
   fst (get_domains empty_domains_world) = Inr (JStr [])"
  by (simp add: get_domains_def get_marathon_app_def world_defs marathon_defs io_defs const_defs)

section \<open>An update that Marathon accepts without a deployment id\<close>

lemma contains_object: "contains (JObj kvs) k = Inr (map_of kvs k \<noteq> None)"
  by (simp add: map_of_eq_None_iff)

text \<open>
  C8. When Marathon answers the update with a success response whose body has no member
  \<open>deploymentId\<close>, \<open>update_marathon_app\<close> raises: it returns an error, and the update is
  the only thing it has done (it does not sleep and does not fetch the deployments, so it
  does not wait and does not report completion). When the body is a JSON object, the
  error is the exception of line 85.
\<close>

theorem update_without_deployment_id_raises:
  assumes "marathon w (trace w) (update_request app_id kwargs w) = Response True body"
      and "\<forall>kvs. body = Some (JObj kvs) \<longrightarrow> map_of kvs ''deploymentId'' = None"
  shows "(\<exists>e. update_marathon_app app_id kwargs w =
            (Inl e, w\<lparr>trace := trace w @ [Request (update_request app_id kwargs w)]\<rparr>)) \<and>
         (\<forall>kvs. body = Some (JObj kvs) \<longrightarrow>
            update_marathon_app app_id kwargs w =
              (Inl (Exception ''Could not update app. Marathon did not return deployment id.  See response data for error message.''),
               w\<lparr>trace := trace w @ [Request (update_request app_id kwargs w)]\<rparr>))"
proof (cases body)
  case None
  with assms(1) show ?thesis
    by (simp add: update_marathon_app_def send_def response_json_def)
next
  case (Some data)
  show ?thesis
  proof (cases data)
    case (JObj kvs)
    with Some assms show ?thesis
      by (simp add: update_marathon_app_def send_def response_json_def contains_object
               del: contains.simps)
  qed (use Some assms(1) in \<open>simp_all add: update_marathon_app_def send_def response_json_def\<close>)
qed

theorem update_without_deployment_id_raises_witness:
  "marathon mute_world (trace mute_world)
     (update_request (Some ''/marathon-lb'') [(''env'', JObj []), (''secrets'', JObj [])] mute_world)
     = Response True (Some (JObj [(''version'', JStr ''2026-01-01'')])) \<and>
   map_of [(''version'', JStr ''2026-01-01'')] ''deploymentId'' = None \<and>
   fst (update_marathon_app (Some ''/marathon-lb'') [(''env'', JObj []), (''secrets'', JObj [])] mute_world)
     = Inl (Exception ''Could not update app. Marathon did not return deployment id.  See response data for error message.'') \<and>
   requests_of (trace (snd (update_marathon_app (Some ''/marathon-lb'') [(''env'', JObj []), (''secrets'', JObj [])] mute_world)))
     = [update_request (Some ''/marathon-lb'') [(''env'', JObj []), (''secrets'', JObj [])] mute_world]"
  using update_without_deployment_id_raises
    [of mute_world "Some ''/marathon-lb''" "[(''env'', JObj []), (''secrets'', JObj [])]"
        "Some (JObj [(''version'', JStr ''2026-01-01'')])"]
  by (simp add: world_defs marathon_defs update_request_def)

section \<open>Publishing a certificate that Marathon already holds\<close>

text \<open>
  C2. When the certificate file reads as \<open>c\<close> and the definition of the load balancer that
  Marathon returns has \<open>c\<close> under \<open>HAPROXY_SSL_CERT\<close> in its environment,
  \<open>upload_cert_to_marathon_lb\<close> returns normally and the read of the definition is the only
  request it sends: no update is submitted. A second upload of the same certificate, to a
  Marathon that reports the environment the first one submitted, is such a call.
\<close>

theorem upload_same_cert_sends_no_update:
  assumes "read_text w cert_filename = Inr c"
      and "marathon w (trace w)
             (Get (get_marathon_url w @ ''/v2/apps/'' @ percent_s (environ w ENV_MARATHON_LB_ID)))
           = Response True (Some app_data)"
      and "subscript app_data ''app'' = Inr app"
      and "subscript app ''env'' = Inr (JObj env)"
      and "map_of env HAPROXY_SSL_CERT = Some (JStr c)"
  shows "upload_cert_to_marathon_lb cert_filename w =
           (Inr (), w\<lparr>trace := trace w @
              [Request (Get (get_marathon_url w @ ''/v2/apps/'' @ percent_s (environ w ENV_MARATHON_LB_ID)))]\<rparr>)"
  using assms
  by (simp add: upload_cert_to_marathon_lb_def get_marathon_app_def send_def response_json_def
        py_eq_def Let_def)

text \<open>
  The two uploads in the first world: the first one submits the update, the second one,
  made in the world that the first one leaves, only reads the definition.
\<close>

lemma issued_world_eq:
  "issued_world =
     first_world\<lparr>files := [''.lego/certificates/a.example.com.crt'' \<mapsto> ''CERT'',
                            ''.lego/certificates/a.example.com.pem'' \<mapsto> ''CERT KEY'',
                            ''.lego/current_domains'' \<mapsto> ''a.example.com,b.example.com''],
                  trace := [Ran [''./lego'', ''--server'', ''https://acme-staging.api.letsencrypt.org/directory'',
                                 ''--email'', ''admin@example.com'', ''--accept-tos'', ''--pem'',
                                 ''--domains'', ''a.example.com'', ''--domains'', ''b.example.com'',
                                 ''--http'', '':8080'', ''--exclude'', ''tls-sni-01'', ''run''],
                            Wrote ''.lego/current_domains'' ''a.example.com,b.example.com'']\<rparr>"
  by (simp add: issued_world_def generate_letsencrypt_cert_def read_domains_from_last_time_def
        item0_def domain_args_def verification_args_def mode_args_def DEFAULT_LEGO_ARGS_def
        write_domains_to_file_def Let_def
        world_defs marathon_defs io_defs const_defs)

lemma published_world_eq:
  "published_world =
     issued_world\<lparr>trace := trace issued_world @
        [Request (Get ''https://marathon.mesos:8443//v2/apps//marathon-lb''),
         Request (Patch ''https://marathon.mesos:8443//v2/apps//marathon-lb''
                    (JObj [(''id'', JStr ''/marathon-lb''), (''env'', JObj example_env), (''secrets'', JObj [])])),
         Slept 5,
         Request (Get ''https://marathon.mesos:8443//v2/deployments'')]\<rparr>"
  by (simp add: published_world_def issued_world_eq upload_cert_to_marathon_lb_def
        get_cert_filepath_def startswith_star_def get_marathon_app_def update_marathon_app_def
        update_request_def poll_deployments_def wait_for_deployment.simps example_env_def
        py_eq_def Let_def world_defs marathon_defs io_defs const_defs)

theorem upload_same_cert_sends_no_update_witness:
  "read_text published_world (get_cert_filepath ''a.example.com'') = Inr ''CERT KEY'' \<and>
   requests_of (trace published_world) =
     [Get ''https://marathon.mesos:8443//v2/apps//marathon-lb'',
      Patch ''https://marathon.mesos:8443//v2/apps//marathon-lb''
        (JObj [(''id'', JStr ''/marathon-lb''), (''env'', JObj example_env), (''secrets'', JObj [])]),
      Get ''https://marathon.mesos:8443//v2/deployments''] \<and>
   upload_cert_to_marathon_lb (get_cert_filepath ''a.example.com'') published_world =
     (Inr (), published_world\<lparr>trace := trace published_world @
        [Request (Get ''https://marathon.mesos:8443//v2/apps//marathon-lb'')]\<rparr>)"
  using upload_same_cert_sends_no_update
    [of published_world "get_cert_filepath ''a.example.com''" "''CERT KEY''"
        "example_app ''a.example.com,b.example.com'' (JObj example_env)"
        "JObj [(''id'', JStr ''/marathon-lb''),
               (''labels'', JObj [(''HAPROXY_0_VHOST'', JStr ''a.example.com,b.example.com'')]),
               (''env'', JObj example_env), (''secrets'', JObj [])]"
        example_env]
  by (simp add: published_world_eq issued_world_eq get_cert_filepath_def startswith_star_def
        example_env_def world_defs marathon_defs io_defs const_defs)

section \<open>The state file is written after a successful issuance only\<close>

text \<open>
  C7. An issuance for which \<open>lego\<close> itself leaves the state file alone ends in one of three
  ways. The subprocess is not started (an argument is \<open>None\<close>) and nothing changes. Or it
  is run and exits with a status other than 0: the issuer raises the exception of line 169,
  the run is its only action and the state file reads as before. Or it is run and exits
  with status 0: the issuer returns the primary domain and the write of the new domain
  list is the action that follows the run. So the state file is written after an exit
  with status 0 and in no other case.
\<close>

theorem issuance_is_atomic:
  assumes frame: "\<forall>t argv. snd (lego w t argv (files w)) DOMAINS_FILE = files w DOMAINS_FILE"
      and run: "generate_letsencrypt_cert domains w = (r, w')"
  shows "(r = Inl TypeError \<and> w' = w) \<or>
         (\<exists>argv. fst (lego w (trace w) argv (files w)) \<noteq> 0 \<and>
            r = Inl (Exception ''Obtaining certificates failed. Check lego output for error messages.'') \<and>
            trace w' = trace w @ [Ran argv] \<and>
            read_domains_from_last_time w' = read_domains_from_last_time w) \<or>
         (\<exists>argv. fst (lego w (trace w) argv (files w)) = 0 \<and>
            r = Inr (takeWhile (\<lambda>c. c \<noteq> CHR '','') domains) \<and>
            trace w' = trace w @ [Ran argv, Wrote DOMAINS_FILE domains] \<and>
            files w' DOMAINS_FILE = Some domains)"
proof -
  define args where "args = DEFAULT_LEGO_ARGS w @ map Some (domain_args domains @ verification_args w
       @ mode_args w (domains \<noteq> (case files w DOMAINS_FILE of None \<Rightarrow> [] | Some s \<Rightarrow> universal_newlines s))
           (takeWhile (\<lambda>c. c \<noteq> CHR '','') domains))"
  have gen: "generate_letsencrypt_cert domains w =
     (case subprocess_run args w of
        (Inl e, w') \<Rightarrow> (Inl e, w')
      | (Inr returncode, w') \<Rightarrow>
          if returncode \<noteq> 0
          then (Inl (Exception ''Obtaining certificates failed. Check lego output for error messages.''), w')
          else (Inr (takeWhile (\<lambda>c. c \<noteq> CHR '','') domains), write_domains_to_file domains w'))"
    by (simp add: generate_letsencrypt_cert_def read_domains_from_last_time_eq item0_split_comma
          Let_def args_def)
  show ?thesis
  proof (cases "None \<in> set args")
    case True
    with run gen show ?thesis by (simp add: subprocess_run_def)
  next
    case False
    let ?argv = "map the args"
    let ?out = "lego w (trace w) ?argv (files w)"
    show ?thesis
    proof (cases "fst ?out = 0")
      case True
      with False run gen have "r = Inr (takeWhile (\<lambda>c. c \<noteq> CHR '','') domains)"
        and "w' = write_domains_to_file domains (w\<lparr>files := snd ?out, trace := trace w @ [Ran ?argv]\<rparr>)"
        by (simp_all add: subprocess_run_def Let_def)
      with True show ?thesis
        by (simp add: write_domains_to_file_def write_text_def normpath_DOMAINS_FILE)
    next
      case nz: False
      with False run gen
      have "r = Inl (Exception ''Obtaining certificates failed. Check lego output for error messages.'')"
        and "w' = w\<lparr>files := snd ?out, trace := trace w @ [Ran ?argv]\<rparr>"
        by (simp_all add: subprocess_run_def Let_def)
      with nz frame show ?thesis
        by (auto simp add: read_domains_from_last_time_eq)
    qed
  qed
qed

theorem issuance_is_atomic_witness:
  "snd (lego failing_world [] [] (files failing_world)) DOMAINS_FILE = files failing_world DOMAINS_FILE \<and>
   fst (generate_letsencrypt_cert ''a.example.com'' failing_world) =
     Inl (Exception ''Obtaining certificates failed. Check lego output for error messages.'') \<and>
   read_domains_from_last_time (snd (generate_letsencrypt_cert ''a.example.com'' failing_world)) = Inr [] \<and>
   fst (generate_letsencrypt_cert ''a.example.com'' first_world) = Inr ''a.example.com'' \<and>
   read_domains_from_last_time (snd (generate_letsencrypt_cert ''a.example.com'' first_world)) =
     Inr ''a.example.com''"
  using issuance_is_atomic [of failing_world "''a.example.com''"
          "fst (generate_letsencrypt_cert ''a.example.com'' failing_world)"
          "snd (generate_letsencrypt_cert ''a.example.com'' failing_world)"]
        issuance_is_atomic [of first_world "''a.example.com''"
          "fst (generate_letsencrypt_cert ''a.example.com'' first_world)"
          "snd (generate_letsencrypt_cert ''a.example.com'' first_world)"]
  by (simp add: generate_letsencrypt_cert_def read_domains_from_last_time_def
        item0_def domain_args_def verification_args_def mode_args_def DEFAULT_LEGO_ARGS_def
        write_domains_to_file_def Let_def
        world_defs marathon_defs io_defs const_defs)

section \<open>The verification method when its variable is unset\<close>

lemma as_http_fields:
  "files (as_http w) = files w" "trace (as_http w) = trace w"
  "marathon (as_http w) = marathon w" "lego (as_http w) = lego w"
  by (simp_all add: as_http_def)

lemma as_http_environ:
  "k \<noteq> ENV_VERIFICATION_METHOD \<Longrightarrow> environ (as_http w) k = environ w k"
  "environ (as_http w) ENV_VERIFICATION_METHOD = Some ''http''"
  by (simp_all add: as_http_def)

lemma as_http_method:
  "environ w ENV_VERIFICATION_METHOD = None \<Longrightarrow>
   environ_get (as_http w) ENV_VERIFICATION_METHOD ''http'' = environ_get w ENV_VERIFICATION_METHOD ''http''"
  by (simp add: environ_get_def as_http_def)

lemma as_http_environ_get:
  "k \<noteq> ENV_VERIFICATION_METHOD \<Longrightarrow> environ_get (as_http w) k d = environ_get w k d"
  by (simp add: environ_get_def as_http_def)

lemma as_http_update:
  "as_http w\<lparr>trace := t\<rparr> = as_http (w\<lparr>trace := t\<rparr>)"
  "as_http w\<lparr>files := f\<rparr> = as_http (w\<lparr>files := f\<rparr>)"
  by (simp_all add: as_http_def)

lemma other_variables:
  "ENV_MARATHON_URL \<noteq> ENV_VERIFICATION_METHOD" "ENV_MARATHON_APP_ID \<noteq> ENV_VERIFICATION_METHOD"
  "ENV_DOMAINS \<noteq> ENV_VERIFICATION_METHOD" "ENV_DNSPROVIDER \<noteq> ENV_VERIFICATION_METHOD"
  "ENV_LETSENCRYPT_URL \<noteq> ENV_VERIFICATION_METHOD" "ENV_LETSENCRYPT_EMAIL \<noteq> ENV_VERIFICATION_METHOD"
  by (simp_all add: const_defs)

lemma get_marathon_app_as_http:
  "get_marathon_app app_id (as_http w) =
     (fst (get_marathon_app app_id w), as_http (snd (get_marathon_app app_id w)))"
  by (simp add: get_marathon_app_def send_def get_marathon_url_def as_http_environ_get
        as_http_fields as_http_update other_variables split: response.splits)

lemma get_domains_as_http:
  assumes "environ w ENV_VERIFICATION_METHOD = None"
  shows "get_domains (as_http w) = (fst (get_domains w), as_http (snd (get_domains w)))"
  by (simp add: get_domains_def get_marathon_app_as_http as_http_method [OF assms]
        as_http_environ other_variables Let_def split: prod.splits sum.splits)

lemma verification_args_as_http:
  assumes "environ w ENV_VERIFICATION_METHOD = None"
  shows "verification_args (as_http w) = verification_args w" "verification_args w = LEGO_ARGS_HTTP"
  using assms
  by (simp_all add: verification_args_def environ_get_def as_http_def)

lemma generate_as_http:
  assumes "environ w ENV_VERIFICATION_METHOD = None"
  shows "generate_letsencrypt_cert domains (as_http w) =
           (fst (generate_letsencrypt_cert domains w), as_http (snd (generate_letsencrypt_cert domains w)))"
proof -
  have d: "DEFAULT_LEGO_ARGS (as_http w) = DEFAULT_LEGO_ARGS w"
    by (simp add: DEFAULT_LEGO_ARGS_def as_http_environ_get as_http_environ other_variables)
  have m: "mode_args (as_http w) = mode_args w"
    by (simp add: mode_args_def path_exists_def as_http_fields fun_eq_iff)
  have r: "read_domains_from_last_time (as_http w) = read_domains_from_last_time w"
    by (simp add: read_domains_from_last_time_eq as_http_fields)
  have s: "subprocess_run args (as_http w) = (fst (subprocess_run args w), as_http (snd (subprocess_run args w)))"
    for args
    by (simp add: subprocess_run_def as_http_fields Let_def as_http_def)
  have wr: "write_domains_to_file domains (as_http u) = as_http (write_domains_to_file domains u)" for u
    by (simp add: write_domains_to_file_def write_text_def as_http_def)
  show ?thesis
    by (simp add: generate_letsencrypt_cert_def d m r s wr verification_args_as_http(1) [OF assms]
          Let_def split: prod.splits sum.splits)
qed

lemma unknown_method_only_if_set:
  assumes "fst (get_domains w) = Inl (Exception (''Unknown verification method: '' @ v))"
  shows "environ w ENV_VERIFICATION_METHOD = Some v \<and> v \<noteq> ''http'' \<and> v \<noteq> ''dns''"
proof -
  obtain r w' where g: "get_marathon_app (environ w ENV_MARATHON_APP_ID) w = (r, w')"
    by (cases "get_marathon_app (environ w ENV_MARATHON_APP_ID) w")
  have no: "r \<noteq> Inl (Exception (''Unknown verification method: '' @ v))"
    using g by (auto simp add: get_marathon_app_def send_def response_json_def
                  split: response.splits if_splits option.splits)
  have sub: "subscript j k \<noteq> Inl (Exception m)" for j k m
    by (cases j) (simp_all split: option.splits)
  show ?thesis
    using assms g no sub
    by (auto simp add: get_domains_def Let_def environ_get_def
          split: sum.splits if_splits option.splits)
qed

text \<open>
  C10. When \<open>LETSENCRYPT_VERIFICATION_METHOD\<close> is unset, the resolver and the issuer do in
  the world what they do in the same world with the variable set to \<open>http\<close>: the same
  result, the same requests, the same command, the same files; and the challenge
  arguments are those of the http mode. And when the resolver raises the exception of
  line 117 for a method \<open>v\<close>, the variable is set, to \<open>v\<close>, which is neither \<open>http\<close> nor
  \<open>dns\<close>.
\<close>

theorem unset_method_is_http:
  "(environ w ENV_VERIFICATION_METHOD = None \<longrightarrow>
      get_domains (as_http w) = (fst (get_domains w), as_http (snd (get_domains w))) \<and>
      generate_letsencrypt_cert domains (as_http w) =
        (fst (generate_letsencrypt_cert domains w), as_http (snd (generate_letsencrypt_cert domains w))) \<and>
      verification_args w = LEGO_ARGS_HTTP) \<and>
   (fst (get_domains w) = Inl (Exception (''Unknown verification method: '' @ v)) \<longrightarrow>
      environ w ENV_VERIFICATION_METHOD = Some v \<and> v \<noteq> ''http'' \<and> v \<noteq> ''dns'')"
  using get_domains_as_http generate_as_http verification_args_as_http(2) unknown_method_only_if_set
  by blast

theorem unset_method_is_http_witness:
  "environ first_world ENV_VERIFICATION_METHOD = None \<and>
   fst (get_domains first_world) = Inr (JStr ''a.example.com,b.example.com'') \<and>
   get_domains (as_http first_world) =
     (fst (get_domains first_world), as_http (snd (get_domains first_world))) \<and>
   generate_letsencrypt_cert ''a.example.com'' (as_http first_world) =
     (fst (generate_letsencrypt_cert ''a.example.com'' first_world),
      as_http (snd (generate_letsencrypt_cert ''a.example.com'' first_world))) \<and>
   verification_args first_world = [''--http'', '':8080'', ''--exclude'', ''tls-sni-01''] \<and>
   fst (get_domains unknown_method_world) = Inl (Exception (''Unknown verification method: '' @ ''tls'')) \<and>
   environ unknown_method_world ENV_VERIFICATION_METHOD = Some ''tls''"
  using unset_method_is_http [of first_world "''a.example.com''" "''tls''"]
        unset_method_is_http [of unknown_method_world "''a.example.com''" "''tls''"]
  by (simp add: get_domains_def get_marathon_app_def world_defs marathon_defs io_defs const_defs)

section \<open>The wait for the deployment\<close>

lemma slept_total_append: "slept_total (t @ u) = slept_total t + slept_total u"
  by (induction t rule: slept_total.induct) simp_all

text \<open>
  The three ways a turn of the loop can go once the poll has an answer: up to the 60th
  poll the loop ends normally when the id is not listed and goes on when it is; at the
  61st poll it raises, listed or not.
\<close>

lemma wait_complete:
  "poll_deployments d w = (Inr False, w') \<Longrightarrow> s + 5 \<le> 300 \<Longrightarrow>
   wait_for_deployment d s w = (Inr (), w')"
  by (subst wait_for_deployment.simps) simp

lemma wait_continue:
  "poll_deployments d w = (Inr True, w') \<Longrightarrow> s + 5 \<le> 300 \<Longrightarrow>
   wait_for_deployment d s w = wait_for_deployment d (s + 5) w'"
  by (subst wait_for_deployment.simps) simp

lemma wait_timeout:
  "poll_deployments d w = (Inr x, w') \<Longrightarrow> s + 5 > 300 \<Longrightarrow>
   wait_for_deployment d s w =
     (Inl (Exception ''Failed to update app due to timeout in deployment.''), w')"
  by (subst wait_for_deployment.simps) simp

lemma slow_poll:
  assumes "marathon w = slow_marathon" and "environ w ENV_MARATHON_URL = None"
  shows "poll_deployments (JStr ''d1'') w =
           (Inr (slept_total (trace w) + 5 \<le> 300),
            w\<lparr>trace := trace w @ [Slept 5, Request (Get deployments_url)]\<rparr>)"
  using assms
  by (simp add: poll_deployments_def slow_marathon_def deployments_url_def io_defs
        DEFAULT_MARATHON_URL_def slept_total_append py_eq_def)

lemma slow_wait:
  assumes "marathon w = slow_marathon" and "environ w ENV_MARATHON_URL = None"
      and "slept_total (trace w) = s" and "k \<le> 60" and "s = 300 - 5 * int k"
  shows "fst (wait_for_deployment (JStr ''d1'') s w) =
           Inl (Exception ''Failed to update app due to timeout in deployment.'') \<and>
         slept_total (trace (snd (wait_for_deployment (JStr ''d1'') s w))) = 305 \<and>
         last (trace (snd (wait_for_deployment (JStr ''d1'') s w))) = Request (Get deployments_url) \<and>
         slow_marathon (butlast (trace (snd (wait_for_deployment (JStr ''d1'') s w)))) (Get deployments_url) =
           Response True (Some (JArr []))"
  using assms
proof (induction k arbitrary: w s)
  case 0
  then have p: "poll_deployments (JStr ''d1'') w =
      (Inr False, w\<lparr>trace := trace w @ [Slept 5, Request (Get deployments_url)]\<rparr>)"
    by (simp add: slow_poll)
  from 0 have "s + 5 > 300" by simp
  from wait_timeout [OF p this] 0 show ?case
    by (simp add: slept_total_append slow_marathon_def butlast_append)
next
  case (Suc k)
  let ?w' = "w\<lparr>trace := trace w @ [Slept 5, Request (Get deployments_url)]\<rparr>"
  from Suc.prems have p: "poll_deployments (JStr ''d1'') w = (Inr True, ?w')"
    by (simp add: slow_poll)
  from Suc.prems have "s + 5 \<le> 300" by simp
  from wait_continue [OF p this]
  have e: "wait_for_deployment (JStr ''d1'') s w = wait_for_deployment (JStr ''d1'') (s + 5) ?w'" .
  have "fst (wait_for_deployment (JStr ''d1'') (s + 5) ?w') =
           Inl (Exception ''Failed to update app due to timeout in deployment.'') \<and>
         slept_total (trace (snd (wait_for_deployment (JStr ''d1'') (s + 5) ?w'))) = 305 \<and>
         last (trace (snd (wait_for_deployment (JStr ''d1'') (s + 5) ?w'))) = Request (Get deployments_url) \<and>
         slow_marathon (butlast (trace (snd (wait_for_deployment (JStr ''d1'') (s + 5) ?w')))) (Get deployments_url) =
           Response True (Some (JArr []))"
    using Suc.prems by (intro Suc.IH) (simp_all add: slept_total_append)
  with e show ?case by simp
qed

lemma slow_update:
  "update_marathon_app (Some ''/marathon-lb'') [(''env'', JObj example_env), (''secrets'', JObj [])] slow_world =
     wait_for_deployment (JStr ''d1'') 0
       (slow_world\<lparr>trace := [Request (update_request (Some ''/marathon-lb'')
           [(''env'', JObj example_env), (''secrets'', JObj [])] slow_world)]\<rparr>)"
  by (simp add: update_marathon_app_def send_def response_json_def slow_world_def first_world_def
        slow_marathon_def update_request_def)

text \<open>
  C3 (the code at the failing input). Marathon accepts the update with the deployment id
  \<open>d1\<close>, lists \<open>d1\<close> at the first 60 polls and lists no deployment at the 61st. The
  waiter raises the timeout exception of line 105 after 305 seconds of sleep, and the
  answer to its last request, the 61st poll, is the empty list: the timeout is reported
  on a poll that shows the id absent.
\<close>

theorem timeout_after_deployment_ended:
  "fst (update_marathon_app (Some ''/marathon-lb'') [(''env'', JObj example_env), (''secrets'', JObj [])] slow_world) =
     Inl (Exception ''Failed to update app due to timeout in deployment.'') \<and>
   slept_total (trace (snd (update_marathon_app (Some ''/marathon-lb'')
       [(''env'', JObj example_env), (''secrets'', JObj [])] slow_world))) = 305 \<and>
   last (trace (snd (update_marathon_app (Some ''/marathon-lb'')
       [(''env'', JObj example_env), (''secrets'', JObj [])] slow_world))) = Request (Get deployments_url) \<and>
   marathon slow_world
     (butlast (trace (snd (update_marathon_app (Some ''/marathon-lb'')
        [(''env'', JObj example_env), (''secrets'', JObj [])] slow_world))))
     (Get deployments_url) = Response True (Some (JArr []))"
proof -
  let ?w = "slow_world\<lparr>trace := [Request (update_request (Some ''/marathon-lb'')
           [(''env'', JObj example_env), (''secrets'', JObj [])] slow_world)]\<rparr>"
  have "marathon ?w = slow_marathon" "environ ?w ENV_MARATHON_URL = None"
    "slept_total (trace ?w) = 0"
    by (simp_all add: world_defs const_defs)
  from slow_wait [OF this, of 60] show ?thesis
    by (simp add: slow_update) (simp add: slow_world_def)
qed

section \<open>The run with backoff\<close>

lemma backoff_loop_failing:
  "all_fail client ns w \<Longrightarrow> waits_from b s ns \<Longrightarrow>
   backoff_loop client b s w = Some (attempts client ns w)"
proof (induction ns arbitrary: b s w)
  case Nil
  then obtain e w' where "client w = (Inl e, w')"
    by (cases "client w") (auto simp add: isl_def)
  with Nil show ?case
    by (subst backoff_loop.simps) simp
next
  case (Cons n ns)
  then obtain e w' where c: "client w = (Inl e, w')"
    by (cases "client w") (auto simp add: isl_def)
  with Cons.prems have "backoff_loop client b s w =
      backoff_loop client (b * 2) (s + b) (sleep b w')"
    by (subst backoff_loop.simps) simp
  also have "\<dots> = Some (attempts client ns (sleep b w'))"
    using Cons.prems c by (intro Cons.IH) simp_all
  finally show ?case using Cons.prems c by simp
qed

lemma all_fail_last: "all_fail client ns w \<Longrightarrow> isl (fst (attempts client ns w))"
  by (induction ns arbitrary: w) simp_all

text \<open>
  The loop returns from every world, whatever the attempts do, as long as the first wait
  is positive: each failure adds the wait to \<open>sum_wait_time\<close>, and the waits grow.
\<close>

lemma backoff_loop_returns:
  assumes "0 < b"
  shows "\<exists>y. backoff_loop client b s w = Some y"
  using assms
proof (induction "nat (60 * 60 - s)" arbitrary: b s w rule: less_induct)
  case less
  obtain r w' where c: "client w = (r, w')" by (cases "client w")
  show ?case
  proof (cases r)
    case (Inr u)
    with c show ?thesis by (subst backoff_loop.simps) simp
  next
    case (Inl e)
    show ?thesis
    proof (cases "s \<ge> 60 * 60")
      case True
      with c Inl show ?thesis by (subst backoff_loop.simps) simp
    next
      case False
      with less.prems have "nat (60 * 60 - (s + b)) < nat (60 * 60 - s)" by simp
      from less.hyps [OF this, of "b * 2" "sleep b w'"] less.prems
      obtain y where "backoff_loop client (b * 2) (s + b) (sleep b w') = Some y" by auto
      with c Inl False less.prems show ?thesis by (subst backoff_loop.simps) simp
    qed
  qed
qed

lemma run_client_with_backoff_returns: "\<exists>y. run_client_with_backoff w = Some y"
  unfolding run_client_with_backoff_def by (rule backoff_loop_returns) simp

text \<open>
  C4 (amended). When every attempt of the run fails, the loop started with a wait of 30
  and no time waited makes eight attempts, with waits of 30, 60, 120, 240, 480, 960 and
  1920 seconds between them, and returns what the eighth attempt returns, its error: the
  test of line 214 comes before the sleep and stops the loop at the first failure that
  finds 3600 seconds or more already waited, which is after 3810 seconds of waiting.
  \<open>run_client_with_backoff\<close> is this loop with \<open>run_client\<close> as the attempt.
\<close>

theorem backoff_schedule:
  assumes "all_fail client backoff_waits w"
  shows "backoff_loop client 30 0 w = Some (attempts client backoff_waits w) \<and>
         isl (fst (attempts client backoff_waits w)) \<and>
         backoff_waits = [30, 60, 120, 240, 480, 960, 1920] \<and>
         sum_list backoff_waits = 3810"
proof -
  have "waits_from 30 0 backoff_waits" by (simp add: backoff_waits_def)
  with assms have "backoff_loop client 30 0 w = Some (attempts client backoff_waits w)"
    by (rule backoff_loop_failing)
  with assms all_fail_last [of client backoff_waits w] show ?thesis
    by (simp add: backoff_waits_def)
qed

lemma run_client_down:
  "marathon w = down_marathon \<Longrightarrow> environ w = example_environ \<Longrightarrow>
   run_client w = (Inl ConnectionError,
     w\<lparr>trace := trace w @ [Request (Get ''https://marathon.mesos:8443//v2/apps//letsencrypt'')]\<rparr>)"
  by (simp add: run_client_def get_domains_def get_marathon_app_def marathon_defs io_defs
        const_defs example_environ_def)

theorem backoff_schedule_witness:
  "all_fail run_client backoff_waits down_world \<and>
   run_client_with_backoff down_world = Some (attempts run_client backoff_waits down_world) \<and>
   fst (attempts run_client backoff_waits down_world) = Inl ConnectionError"
  using backoff_schedule [of run_client down_world]
  by (simp add: run_client_with_backoff_def backoff_waits_def run_client_down sleep_def
        down_world_def first_world_def)

text \<open>
  The claim as written fails when Marathon cannot be reached: every attempt fails, and
  the wrapper has slept 3810 seconds, more than the budget of 3600, when it re-raises.
\<close>

theorem backoff_sleeps_past_budget_counterexample:
  "map_option fst (run_client_with_backoff down_world) = Some (Inl ConnectionError) \<and>
   map_option (\<lambda>y. slept_total (trace (snd y))) (run_client_with_backoff down_world) = Some 3810 \<and>
   \<not> (3810 \<le> (3600 :: int))"
proof -
  have f: "all_fail run_client backoff_waits down_world"
    by (simp add: backoff_waits_def run_client_down sleep_def down_world_def first_world_def)
  have "waits_from 30 0 backoff_waits" by (simp add: backoff_waits_def)
  with f have "run_client_with_backoff down_world = Some (attempts run_client backoff_waits down_world)"
    unfolding run_client_with_backoff_def by (rule backoff_loop_failing)
  then show ?thesis
    by (simp add: backoff_waits_def run_client_down sleep_def down_world_def first_world_def)
qed

section \<open>The choice between renewal and a full issuance\<close>

text \<open>
  The issuer renews exactly when the domain list is the one of the state file and the
  file \<open>CERTIFICATES_DIR/<first_domain>.crt\<close> exists, where \<open>first_domain\<close> is the first
  entry as it is written in the list.
\<close>

lemma mode_args_renew_iff:
  "mode_args w (domains \<noteq> last_time) first_domain =
     (if domains = last_time \<and> path_exists w (CERTIFICATES_DIR @ ''/'' @ first_domain @ ''.crt'')
      then [''renew'', ''--days'', ''80''] else [''run''])"
  by (simp add: mode_args_def)

text \<open>
  The certificate of a domain is kept under the name that \<open>get_cert_filepath\<close> computes: a
  domain that starts with the wildcard has its asterisks replaced, any other domain is
  taken as it is.
\<close>

lemma get_cert_filepath_plain:
  "\<not> startswith_star domain_name \<Longrightarrow>
   get_cert_filepath domain_name = CERTIFICATES_DIR @ ''/'' @ domain_name @ ''.pem''"
  by (simp add: get_cert_filepath_def)

lemma get_cert_filepath_wildcard:
  "get_cert_filepath ''*.example.com'' = ''.lego/certificates//_.example.com.pem''"
  by (simp add: get_cert_filepath_def startswith_star_def replace_star_def CERTIFICATES_DIR_def)

text \<open>
  C1 (the code at the failing input). In the dns mode with \<open>DOMAINS\<close> set to
  \<open>*.example.com\<close>, the state file holds the same list and the certificate of the primary
  domain exists, both as the \<open>.pem\<close> file that \<open>get_cert_filepath\<close> names and as the
  \<open>.crt\<close> file beside it. The issuer looks for \<open>*.example.com.crt\<close>, does not find it and
  starts \<open>lego\<close> with \<open>run\<close>, a full issuance, where the claim has a renewal.
\<close>

theorem wildcard_is_issued_anew:
  "fst (get_domains wildcard_world) = Inr (JStr ''*.example.com'') \<and>
   read_domains_from_last_time wildcard_world = Inr ''*.example.com'' \<and>
   path_exists wildcard_world (get_cert_filepath ''*.example.com'') \<and>
   path_exists wildcard_world (CERTIFICATES_DIR @ ''/'' @ replace_star ''*.example.com'' @ ''.crt'') \<and>
   trace (snd (generate_letsencrypt_cert ''*.example.com'' wildcard_world)) =
     [Ran [''./lego'', ''--server'', ''https://acme-staging.api.letsencrypt.org/directory'',
           ''--email'', ''admin@example.com'', ''--accept-tos'', ''--pem'',
           ''--domains'', ''*.example.com'',
           ''--dns'', ''route53'', ''--dns-resolvers'', ''8.8.8.8:53'', ''--exclude'', ''http-01'',
           ''run''],
      Wrote ''.lego/current_domains'' ''*.example.com'']"
  by (simp add: get_domains_def get_marathon_app_def generate_letsencrypt_cert_def
        read_domains_from_last_time_def get_cert_filepath_def startswith_star_def replace_star_def
        item0_def domain_args_def verification_args_def mode_args_def DEFAULT_LEGO_ARGS_def
        write_domains_to_file_def Let_def
        world_defs marathon_defs io_defs const_defs)

end
